theory Spec2Isabelle
  imports Main
begin

section \<open>The osfstorage addon's helpers (website/addons/osfstorage/utils.py)\<close>

text \<open>
  The module is glue between the storage addon's domain objects (nodes, file records,
  file trees, file versions, sessions) and three libraries: the URL library furl, the
  signing library itsdangerous and Python's os.path. Domain objects are records of the
  attributes the module reads; a method of a domain object that the module only calls
  is a function-valued field. Library entry points whose code is a parser, a printer or
  a keyed hash are fields of the record \<open>library\<close>; configuration values are fields
  of \<open>config\<close>.
\<close>

subsection \<open>Python values and errors\<close>

datatype pyval = Str string | IntV int | BoolV bool | NoneV

datatype error =
    TypeError
  | AttributeError
  | BadSignature
  | Raised string

subsection \<open>os.path.splitext\<close>

text \<open>
  \<^verbatim>\<open>str.rfind\<close> for a one-character needle: the highest index at which it occurs,
  \<open>-1\<close> when it does not occur. The scan keeps the current index and the last hit.
\<close>

fun rfind_from :: "char \<Rightarrow> string \<Rightarrow> int \<Rightarrow> int \<Rightarrow> int" where
  "rfind_from c [] i r = r"
| "rfind_from c (x # xs) i r = rfind_from c xs (i + 1) (if x = c then i else r)"

definition rfind :: "string \<Rightarrow> char \<Rightarrow> int" where
  "rfind p c = rfind_from c p 0 (- 1)"

text \<open>
  The loop of \<^verbatim>\<open>genericpath._splitext\<close>, which skips the dots a file name starts with:
  \<^verbatim>\<open>
    while filenameIndex < dotIndex:
        if p[filenameIndex] != extsep:
            return p[:dotIndex], p[dotIndex:]
        filenameIndex += 1
    return p, ''
  \<close>
\<close>

function splitext_loop :: "string \<Rightarrow> int \<Rightarrow> int \<Rightarrow> string \<times> string" where
  "splitext_loop p filenameIndex dotIndex =
     (if filenameIndex < dotIndex then
        (if p ! nat filenameIndex \<noteq> CHR ''.''
         then (take (nat dotIndex) p, drop (nat dotIndex) p)
         else splitext_loop p (filenameIndex + 1) dotIndex)
      else (p, ''''))"
  by pat_completeness auto
termination
  by (relation "measure (\<lambda>(p, filenameIndex, dotIndex). nat (dotIndex - filenameIndex))") auto

declare splitext_loop.simps [simp del]

text \<open>
  \<^verbatim>\<open>posixpath.splitext\<close>: separator \<open>/\<close>, no alternative separator, extension
  separator \<open>.\<close>.
\<close>

definition splitext :: "string \<Rightarrow> string \<times> string" where
  "splitext p =
     (let sepIndex = rfind p CHR ''/'';
          dotIndex = rfind p CHR ''.''
      in if dotIndex > sepIndex then splitext_loop p (sepIndex + 1) dotIndex
         else (p, ''''))"

subsection \<open>datetime.isoformat\<close>

text \<open>
  A naive \<^verbatim>\<open>datetime\<close> (no time zone, as the document mapper stores them).
  \<^verbatim>\<open>isoformat()\<close> prints \<^verbatim>\<open>%04d-%02d-%02dT%02d:%02d:%02d\<close>, followed by
  \<^verbatim>\<open>.%06d\<close> of the microseconds when they are not zero.
\<close>

record datetime =
  year :: nat
  month :: nat
  day :: nat
  hour :: nat
  minute :: nat
  second :: nat
  microsecond :: nat

definition digit_char :: "nat \<Rightarrow> char" where
  "digit_char d = ''0123456789'' ! d"

fun str_nat :: "nat \<Rightarrow> string" where
  "str_nat n = (if n < 10 then [digit_char n] else str_nat (n div 10) @ [digit_char (n mod 10)])"

declare str_nat.simps [simp del]

definition zero_pad :: "nat \<Rightarrow> nat \<Rightarrow> string" where
  "zero_pad w n = replicate (w - length (str_nat n)) CHR ''0'' @ str_nat n"

definition isoformat :: "datetime \<Rightarrow> string" where
  "isoformat d =
     zero_pad 4 (year d) @ ''-'' @ zero_pad 2 (month d) @ ''-'' @ zero_pad 2 (day d) @ ''T'' @
     zero_pad 2 (hour d) @ '':'' @ zero_pad 2 (minute d) @ '':'' @ zero_pad 2 (second d) @
     (if microsecond d \<noteq> 0 then ''.'' @ zero_pad 6 (microsecond d) else '''')"

subsection \<open>Configuration and libraries\<close>

text \<open>
  The settings the module reads: \<open>DOMAIN\<close> from the addon's settings,
  the other three from the site's settings.
\<close>

record config =
  DOMAIN :: string
  SECRET_KEY :: string
  WATERBUTLER_URL :: string
  COOKIE_NAME :: string

text \<open>
  A furl object: the components furl parses a URL into. \<open>host\<close> holds whatever
  value was assigned to it (\<open>NoneV\<close> when the URL has no host); \<open>segments\<close> is
  \<^verbatim>\<open>path.segments\<close>; \<open>args\<close> is the query, as a dictionary.
\<close>

record furl =
  scheme :: "string option"
  furl_username :: "string option"
  furl_password :: "string option"
  host :: pyval
  port :: "nat option"
  segments :: "string list"
  args :: "string \<rightharpoonup> pyval"
  fragment :: string

text \<open>
  Library code the module calls and whose own code is outside the repository:
  \<^item> \<open>furl_furl\<close> is \<^verbatim>\<open>furl.furl(url)\<close>, the parser;
  \<^item> \<open>furl_url\<close> is the \<^verbatim>\<open>.url\<close> property, the printer;
  \<^item> \<open>furl_setattr\<close> is assignment to an attribute of a furl object other than
    \<^verbatim>\<open>host\<close> (several of those setters parse their value);
  \<^item> \<open>get_signature\<close> is \<^verbatim>\<open>itsdangerous.Signer(key).get_signature(value)\<close>,
    the base64 text of a keyed hash;
  \<^item> \<open>ObjectId\<close> gives the primary key of the n-th object a store creates.
\<close>

record library =
  furl_furl :: "string \<Rightarrow> furl"
  furl_url :: "furl \<Rightarrow> string"
  furl_setattr :: "furl \<Rightarrow> string \<Rightarrow> pyval \<Rightarrow> furl"
  get_signature :: "string \<Rightarrow> string \<Rightarrow> string"
  ObjectId :: "nat \<Rightarrow> string"

subsection \<open>Domain objects\<close>

record user =
  user_id :: string
  username :: string
  fullname :: string

text \<open>The consolidated auth of a request: the user it authenticates, if any.\<close>

record auth =
  auth_user :: "user option"

text \<open>
  A node, with the attributes and methods the module uses. The permission checks may
  raise, so they return a result; \<open>api_url_for\<close> takes the route's name and the
  \<open>path\<close> keyword.
\<close>

record node =
  node_id :: string
  url :: string
  api_url :: string
  is_registration :: bool
  can_edit :: "auth \<Rightarrow> error + bool"
  can_view :: "auth \<Rightarrow> error + bool"
  api_url_for :: "string \<Rightarrow> string \<Rightarrow> string"

record file_version =
  date_created :: datetime
  location_hash :: string

text \<open>
  The attributes shared by file trees and file records; \<open>download_count\<close> is what
  \<^verbatim>\<open>get_download_count()\<close> reads from the persisted counters.
\<close>

record base_file_object =
  path :: string
  name :: string
  extension :: string
  file_node :: node
  download_count :: int

record file_record = base_file_object +
  versions :: "file_version list"

text \<open>
  What \<^verbatim>\<open>serialize_metadata_hgrid\<close> may be handed: a file tree, a file record, or an
  object of any other type, given by its attribute dictionary.
\<close>

datatype item =
    OsfStorageFileTree base_file_object
  | OsfStorageFileRecord file_record
  | OtherObject "string \<rightharpoonup> pyval"

text \<open>
  A persisted session and the session store. \<open>now\<close> is the clock a save stamps
  \<open>date_modified\<close> with; \<open>n_created\<close> counts the objects created so far.
\<close>

record session =
  session_id :: string
  data :: "string \<rightharpoonup> string"
  date_modified :: int

record store =
  sessions :: "session list"
  now :: int
  n_created :: nat

text \<open>The inbound request, as far as the module reads it.\<close>

record request =
  cookies :: "string \<rightharpoonup> string"

subsection \<open>get_permissions\<close>

definition get_permissions :: "auth \<Rightarrow> node \<Rightarrow> error + (string \<rightharpoonup> bool)" where
  "get_permissions auth node =
     (case can_edit node auth of
        Inl e \<Rightarrow> Inl e
      | Inr edit \<Rightarrow>
          (case can_view node auth of
             Inl e \<Rightarrow> Inl e
           | Inr view \<Rightarrow>
               Inr [''edit'' \<mapsto> (edit \<and> \<not> is_registration node), ''view'' \<mapsto> view]))"

subsection \<open>get_item_kind and serialize_metadata_hgrid\<close>

text \<open>
  Modelled from the spec: the constants \<^verbatim>\<open>rubeus.FOLDER\<close>, \<^verbatim>\<open>rubeus.FILE\<close> and
  \<^verbatim>\<open>rubeus.KIND\<close> of website/util/rubeus.py, the folder tag, the file tag and the
  key of the kind field.
\<close>

definition rubeus_FOLDER :: string where
  "rubeus_FOLDER = ''folder''"

definition rubeus_FILE :: string where
  "rubeus_FILE = ''file''"

definition rubeus_KIND :: string where
  "rubeus_KIND = ''kind''"

fun get_item_kind :: "item \<Rightarrow> error + string" where
  "get_item_kind (OsfStorageFileTree t) = Inr rubeus_FOLDER"
| "get_item_kind (OsfStorageFileRecord r) = Inr rubeus_FILE"
| "get_item_kind (OtherObject attrs) = Inl TypeError"

text \<open>
  Attribute access on an item. A file tree and a file record have the attribute; an
  object of another type has it when its dictionary does, and raises
  \<^verbatim>\<open>AttributeError\<close> otherwise.
\<close>

fun getattr_item :: "item \<Rightarrow> string \<Rightarrow> (base_file_object \<Rightarrow> pyval) \<Rightarrow> error + pyval" where
  "getattr_item (OsfStorageFileTree t) key field = Inr (field t)"
| "getattr_item (OsfStorageFileRecord r) key field = Inr (field (base_file_object.truncate r))"
| "getattr_item (OtherObject attrs) key field =
     (case attrs key of None \<Rightarrow> Inl AttributeError | Some v \<Rightarrow> Inr v)"

text \<open>
  The dictionary display evaluates its values in the order written: \<open>item.path\<close>,
  \<open>item.name\<close>, \<open>item.extension\<close>, \<open>get_item_kind(item)\<close>, the node's two
  URLs, \<open>item.get_download_count()\<close>; the first that raises ends the call.
\<close>

definition serialize_metadata_hgrid :: "item \<Rightarrow> node \<Rightarrow> error + (string \<rightharpoonup> pyval)" where
  "serialize_metadata_hgrid item node =
     (case getattr_item item ''path'' (\<lambda>f. Str (path f)) of
        Inl e \<Rightarrow> Inl e
      | Inr path' \<Rightarrow>
     (case getattr_item item ''name'' (\<lambda>f. Str (name f)) of
        Inl e \<Rightarrow> Inl e
      | Inr name' \<Rightarrow>
     (case getattr_item item ''extension'' (\<lambda>f. Str (extension f)) of
        Inl e \<Rightarrow> Inl e
      | Inr ext \<Rightarrow>
     (case get_item_kind item of
        Inl e \<Rightarrow> Inl e
      | Inr kind \<Rightarrow>
     (case getattr_item item ''get_download_count'' (\<lambda>f. IntV (download_count f)) of
        Inl e \<Rightarrow> Inl e
      | Inr downloads \<Rightarrow>
          Inr [''path'' \<mapsto> path',
               ''name'' \<mapsto> name',
               ''ext'' \<mapsto> ext,
               rubeus_KIND \<mapsto> Str kind,
               ''nodeUrl'' \<mapsto> Str (url node),
               ''nodeApiUrl'' \<mapsto> Str (api_url node),
               ''downloads'' \<mapsto> downloads])))))"

subsection \<open>patch_url, ensure_domain, build_callback_urls\<close>

text \<open>
  \<^verbatim>\<open>setattr(parsed, key, value)\<close> on a furl object. Assigning \<open>host\<close> stores the
  value; the other attributes are the library's.
\<close>

definition setattr_furl :: "library \<Rightarrow> furl \<Rightarrow> string \<Rightarrow> pyval \<Rightarrow> furl" where
  "setattr_furl lib parsed key value =
     (if key = ''host'' then parsed\<lparr>host := value\<rparr> else furl_setattr lib parsed key value)"

text \<open>The keyword arguments are the list of their items, in iteration order.\<close>

definition patch_url :: "library \<Rightarrow> string \<Rightarrow> (string \<times> pyval) list \<Rightarrow> string" where
  "patch_url lib url' kwargs =
     (let parsed = furl_furl lib url';
          parsed = fold (\<lambda>(key, value) parsed. setattr_furl lib parsed key value) kwargs parsed
      in furl_url lib parsed)"

definition ensure_domain :: "library \<Rightarrow> config \<Rightarrow> string \<Rightarrow> string" where
  "ensure_domain lib cfg url' = patch_url lib url' [(''host'', Str (DOMAIN cfg))]"

definition build_callback_urls ::
    "library \<Rightarrow> config \<Rightarrow> node \<Rightarrow> string \<Rightarrow> (string \<rightharpoonup> string)" where
  "build_callback_urls lib cfg node path' =
     (let start_url = api_url_for node ''osf_storage_upload_start_hook'' path';
          finish_url = api_url_for node ''osf_storage_upload_finish_hook'' path';
          cached_url = api_url_for node ''osf_storage_upload_cached_hook'' path';
          ping_url = api_url_for node ''osf_storage_upload_ping_hook'' path';
          archive_url = api_url_for node ''osf_storage_upload_archived_hook'' path'
      in [''startUrl'' \<mapsto> ensure_domain lib cfg start_url,
          ''finishUrl'' \<mapsto> ensure_domain lib cfg finish_url,
          ''cachedUrl'' \<mapsto> ensure_domain lib cfg cached_url,
          ''pingUrl'' \<mapsto> ensure_domain lib cfg ping_url,
          ''archiveUrl'' \<mapsto> ensure_domain lib cfg archive_url])"

subsection \<open>get_filename\<close>

definition get_filename :: "int \<Rightarrow> file_version \<Rightarrow> file_record \<Rightarrow> string" where
  "get_filename version_idx file_version file_record =
     (if version_idx = int (length (versions file_record)) then name file_record
      else (case splitext (name file_record) of
              (name', ext) \<Rightarrow> name' @ ''-'' @ isoformat (date_created file_version) @ ext))"

subsection \<open>get_cookie_for_user\<close>

text \<open>
  \<^verbatim>\<open>itsdangerous.Signer\<close>: \<open>sign\<close> appends a dot and the signature; \<open>unsign\<close>
  splits the signed value at its last dot and compares the signature with the one
  the key gives for the value.
\<close>

definition Signer_sign :: "library \<Rightarrow> string \<Rightarrow> string \<Rightarrow> string" where
  "Signer_sign lib secret_key value = value @ ''.'' @ get_signature lib secret_key value"

definition Signer_unsign :: "library \<Rightarrow> string \<Rightarrow> string \<Rightarrow> error + string" where
  "Signer_unsign lib secret_key signed_value =
     (if CHR ''.'' \<notin> set signed_value then Inl BadSignature
      else (let i = nat (rfind signed_value CHR ''.'');
                value = take i signed_value;
                sig = drop (i + 1) signed_value
            in if sig = get_signature lib secret_key value then Inr value
               else Inl BadSignature))"

text \<open>
  \<^verbatim>\<open>Session.find(Q('data.auth_user_id', 'eq', uid)).sort('-date_modified')\<close>: the
  sessions whose data holds that user id, most recently modified first (sessions
  modified at the same time stay in the store's order).
\<close>

definition Session_find :: "store \<Rightarrow> string \<Rightarrow> session list" where
  "Session_find st uid =
     sort_key (\<lambda>s. - date_modified s)
       (filter (\<lambda>s. data s ''auth_user_id'' = Some uid) (sessions st))"

text \<open>Creating and saving a session: a new primary key, the modification time of the save.\<close>

definition Session_save :: "library \<Rightarrow> store \<Rightarrow> (string \<rightharpoonup> string) \<Rightarrow> session \<times> store" where
  "Session_save lib st data' =
     (let session = \<lparr>session_id = ObjectId lib (n_created st),
                     data = data',
                     date_modified = now st\<rparr>
      in (session, st\<lparr>sessions := sessions st @ [session], n_created := Suc (n_created st)\<rparr>))"

definition get_cookie_for_user :: "library \<Rightarrow> config \<Rightarrow> store \<Rightarrow> user \<Rightarrow> string \<times> store" where
  "get_cookie_for_user lib cfg st user =
     (case (case Session_find st (user_id user) of
              session # _ \<Rightarrow> (session, st)
            | [] \<Rightarrow>
                Session_save lib st
                  [''auth_user_id'' \<mapsto> user_id user,
                   ''auth_user_username'' \<mapsto> username user,
                   ''auth_user_fullname'' \<mapsto> fullname user]) of
        (session, st') \<Rightarrow> (Signer_sign lib (SECRET_KEY cfg) (session_id session), st'))"

subsection \<open>get_waterbutler_url and its two specializations\<close>

text \<open>
  \<open>query\<close> is the keyword arguments of the call. A call that gives a parameter
  twice, once by position and once by keyword, raises \<^verbatim>\<open>TypeError\<close>.
\<close>

definition get_waterbutler_url ::
    "library \<Rightarrow> config \<Rightarrow> request \<Rightarrow> store \<Rightarrow> user option \<Rightarrow> string list \<Rightarrow>
     (string \<rightharpoonup> pyval) \<Rightarrow> error + string \<times> store" where
  "get_waterbutler_url lib cfg req st user path' query =
     (if query ''user'' \<noteq> None then Inl TypeError
      else
        (let url' = furl_furl lib (WATERBUTLER_URL cfg);
             url' = url'\<lparr>segments := segments url' @ path'\<rparr>;
             (cookie, st') =
               (case user of
                  Some u \<Rightarrow> (case get_cookie_for_user lib cfg st u of (c, st') \<Rightarrow> (Str c, st'))
                | None \<Rightarrow>
                    ((case cookies req (COOKIE_NAME cfg) of Some c \<Rightarrow> Str c | None \<Rightarrow> NoneV), st));
             url' = url'\<lparr>args := args url' ++
                       [''token'' \<mapsto> Str [],
                        ''provider'' \<mapsto> Str ''osfstorage'',
                        ''cookie'' \<mapsto> cookie]\<rparr>;
             url' = url'\<lparr>args := args url' ++ query\<rparr>
         in Inr (furl_url lib url', st')))"

definition get_waterbutler_download_url ::
    "library \<Rightarrow> config \<Rightarrow> request \<Rightarrow> store \<Rightarrow> int \<Rightarrow> file_version \<Rightarrow> file_record \<Rightarrow>
     user option \<Rightarrow> (string \<rightharpoonup> pyval) \<Rightarrow> error + string \<times> store" where
  "get_waterbutler_download_url lib cfg req st version_idx file_version file_record user query =
     (let nid = node_id (file_node file_record);
          display_name = get_filename version_idx file_version file_record
      in if query ''nid'' \<noteq> None \<or> query ''path'' \<noteq> None \<or>
            query ''displayName'' \<noteq> None \<or> query ''version'' \<noteq> None
         then Inl TypeError
         else get_waterbutler_url lib cfg req st user [''file'']
                (query ++ [''nid'' \<mapsto> Str nid,
                           ''path'' \<mapsto> Str (''/'' @ name file_record),
                           ''displayName'' \<mapsto> Str display_name,
                           ''version'' \<mapsto> IntV version_idx]))"

definition get_waterbutler_upload_url ::
    "library \<Rightarrow> config \<Rightarrow> request \<Rightarrow> store \<Rightarrow> user option \<Rightarrow> node \<Rightarrow> string \<Rightarrow>
     (string \<rightharpoonup> pyval) \<Rightarrow> error + string \<times> store" where
  "get_waterbutler_upload_url lib cfg req st user node path' query =
     (if query ''nid'' \<noteq> None \<or> query ''path'' \<noteq> None then Inl TypeError
      else get_waterbutler_url lib cfg req st user [''file'']
             (query ++ [''nid'' \<mapsto> Str (node_id node), ''path'' \<mapsto> Str path']))"

subsection \<open>Example objects\<close>

definition example_node :: node where
  "example_node =
     \<lparr>node_id = ''abc12'',
      url = ''/abc12/'',
      api_url = ''/api/v1/project/abc12/'',
      is_registration = False,
      can_edit = (\<lambda>a. Inr (auth_user a \<noteq> None)),
      can_view = (\<lambda>a. Inr True),
      api_url_for = (\<lambda>route p. ''/api/v1/project/abc12/osfstorage/'' @ route @ ''/'' @ p)\<rparr>"

definition version_of_day :: "nat \<Rightarrow> file_version" where
  "version_of_day d =
     \<lparr>date_created = \<lparr>year = 2021, month = 1, day = d, hour = 0, minute = 0, second = 0,
                       microsecond = 0\<rparr>,
      location_hash = ''c0ffee''\<rparr>"

definition report_docx :: file_record where
  "report_docx =
     \<lparr>path = ''report.docx'',
      name = ''report.docx'',
      extension = ''.docx'',
      file_node = example_node,
      download_count = 7,
      versions = [version_of_day 4, version_of_day 5, version_of_day 6]\<rparr>"

definition alice :: user where
  "alice = \<lparr>user_id = ''u1'', username = ''alice@example.org'', fullname = ''Alice A''\<rparr>"

definition example_tree :: base_file_object where
  "example_tree =
     \<lparr>path = ''docs'', name = ''docs'', extension = [], file_node = example_node, download_count = 0\<rparr>"

definition example_library :: library where
  "example_library =
     \<lparr>furl_furl = (\<lambda>s. \<lparr>scheme = Some ''http'', furl_username = None, furl_password = None,
                         host = Str ''localhost'', port = Some 7777, segments = [],
                         args = Map.empty, fragment = []\<rparr>),
      furl_url = (\<lambda>f. concat (map (\<lambda>s. ''/'' @ s) (segments f))),
      furl_setattr = (\<lambda>f key value. f),
      get_signature = (\<lambda>key value. filter (\<lambda>c. c \<noteq> CHR ''.'') (key @ value)),
      ObjectId = (\<lambda>n. ''oid'' @ str_nat n)\<rparr>"

definition example_config :: config where
  "example_config =
     \<lparr>DOMAIN = ''osf.io'', SECRET_KEY = ''secret'', WATERBUTLER_URL = ''http://localhost:7777/'',
      COOKIE_NAME = ''osf''\<rparr>"

definition empty_store :: store where
  "empty_store = \<lparr>sessions = [], now = 100, n_created = 0\<rparr>"

definition store_after_alice :: store where
  "store_after_alice =
     \<lparr>sessions = [\<lparr>session_id = ''oid0'',
                    data = [''auth_user_id'' \<mapsto> ''u1'',
                            ''auth_user_username'' \<mapsto> ''alice@example.org'',
                            ''auth_user_fullname'' \<mapsto> ''Alice A''],
                    date_modified = 100\<rparr>],
      now = 100, n_created = 1\<rparr>"

definition busy_store :: store where
  "busy_store =
     \<lparr>sessions = [\<lparr>session_id = ''oid0'',
                    data = [''auth_user_id'' \<mapsto> ''u1'',
                            ''auth_user_username'' \<mapsto> ''alice@example.org'',
                            ''auth_user_fullname'' \<mapsto> ''Alice A''],
                    date_modified = 100\<rparr>,
                  \<lparr>session_id = ''oid1'',
                    data = [''auth_user_id'' \<mapsto> ''u2''],
                    date_modified = 105\<rparr>],
      now = 110, n_created = 2\<rparr>"

definition example_request :: request where
  "example_request = \<lparr>cookies = [''osf'' \<mapsto> ''inbound.cookie'']\<rparr>"

text \<open>
  furl on a URL that is a path only, as the route URLs of the example node are: the
  object has no scheme and no host, and its path segments are the parts between the
  slashes. The printer writes the scheme and a colon when there is a scheme, two slashes
  and the host when there is a host, then the path.
\<close>

fun split_path :: "string \<Rightarrow> string \<Rightarrow> string list" where
  "split_path acc [] = [rev acc]"
| "split_path acc (c # cs) =
     (if c = CHR ''/'' then rev acc # split_path [] cs else split_path (c # acc) cs)"

definition path_library :: library where
  "path_library =
     example_library
       \<lparr>furl_furl := (\<lambda>s. \<lparr>scheme = None, furl_username = None, furl_password = None,
                          host = NoneV, port = None, segments = split_path [] (drop 1 s),
                          args = Map.empty, fragment = []\<rparr>),
        furl_url := (\<lambda>f. (case scheme f of Some s \<Rightarrow> s @ '':'' | None \<Rightarrow> []) @
                         (case host f of Str h \<Rightarrow> ''//'' @ h | _ \<Rightarrow> []) @
                         concat (map (\<lambda>s. ''/'' @ s) (segments f)))\<rparr>"

text \<open>
  A store with two sessions of the same user (the find-or-create of two concurrent
  requests leaves such a pair), and the same store after the older of the two was saved
  again: no session was created, the older one carries the later modification time.
\<close>

definition two_session_store :: store where
  "two_session_store =
     \<lparr>sessions = [\<lparr>session_id = ''oid0'',
                    data = [''auth_user_id'' \<mapsto> ''u1'',
                            ''auth_user_username'' \<mapsto> ''alice@example.org'',
                            ''auth_user_fullname'' \<mapsto> ''Alice A''],
                    date_modified = 100\<rparr>,
                  \<lparr>session_id = ''oid1'',
                    data = [''auth_user_id'' \<mapsto> ''u1'',
                            ''auth_user_username'' \<mapsto> ''alice@example.org'',
                            ''auth_user_fullname'' \<mapsto> ''Alice A''],
                    date_modified = 105\<rparr>],
      now = 110, n_created = 2\<rparr>"

definition resaved_store :: store where
  "resaved_store =
     \<lparr>sessions = [\<lparr>session_id = ''oid0'',
                    data = [''auth_user_id'' \<mapsto> ''u1'',
                            ''auth_user_username'' \<mapsto> ''alice@example.org'',
                            ''auth_user_fullname'' \<mapsto> ''Alice A''],
                    date_modified = 120\<rparr>,
                  \<lparr>session_id = ''oid1'',
                    data = [''auth_user_id'' \<mapsto> ''u1'',
                            ''auth_user_username'' \<mapsto> ''alice@example.org'',
                            ''auth_user_fullname'' \<mapsto> ''Alice A''],
                    date_modified = 105\<rparr>],
      now = 120, n_created = 2\<rparr>"

section \<open>Properties\<close>

subsection \<open>rfind and splitext\<close>

lemma rfind_from_append:
  "rfind_from c (xs @ ys) i r = rfind_from c ys (i + int (length xs)) (rfind_from c xs i r)"
  by (induction xs arbitrary: i r) (simp_all add: algebra_simps)

lemma rfind_from_absent: "c \<notin> set xs \<Longrightarrow> rfind_from c xs i r = r"
  by (induction xs arbitrary: i) auto

lemma rfind_last_occurrence:
  "c \<notin> set s \<Longrightarrow> rfind (v @ c # s) c = int (length v)"
  by (simp add: rfind_def rfind_from_append rfind_from_absent)

lemma rfind_from_cases:
  "(rfind_from c xs i r = r \<and> c \<notin> set xs) \<or>
   (\<exists>ys zs. xs = ys @ c # zs \<and> c \<notin> set zs \<and> rfind_from c xs i r = i + int (length ys))"
proof (cases "c \<in> set xs")
  case False
  then show ?thesis by (simp add: rfind_from_absent)
next
  case True
  then obtain ys zs where "xs = ys @ c # zs" "c \<notin> set zs"
    by (meson split_list_last)
  then show ?thesis
    by (auto simp: rfind_from_append rfind_from_absent)
qed

lemma rfind_cases:
  "(rfind p c = - 1 \<and> c \<notin> set p) \<or>
   (\<exists>ys zs. p = ys @ c # zs \<and> c \<notin> set zs \<and> rfind p c = int (length ys))"
  using rfind_from_cases [of c p 0 "- 1"] by (simp add: rfind_def)

lemma splitext_loop_cases:
  "splitext_loop p i d = (p, '''') \<or> splitext_loop p i d = (take (nat d) p, drop (nat d) p)"
  by (induction p i d rule: splitext_loop.induct) (subst splitext_loop.simps, subst (2) splitext_loop.simps, auto)

lemma splitext_cases:
  "splitext p = (p, '''') \<or>
   (\<exists>ys zs. p = ys @ CHR ''.'' # zs \<and> CHR ''.'' \<notin> set zs \<and> CHR ''/'' \<notin> set zs \<and>
      splitext p = (ys, CHR ''.'' # zs))"
proof (cases "splitext p = (p, '''')")
  case True
  then show ?thesis by simp
next
  case False
  let ?s = "rfind p CHR ''/''" and ?d = "rfind p CHR ''.''"
  from False have gt: "?d > ?s" and loop: "splitext p = splitext_loop p (?s + 1) ?d"
    by (auto simp: splitext_def Let_def split: if_splits)
  from loop False splitext_loop_cases [of p "?s + 1" ?d]
  have res: "splitext p = (take (nat ?d) p, drop (nat ?d) p)" by auto
  have "?s \<ge> - 1" using rfind_cases [of p "CHR ''/''"] by auto
  with gt rfind_cases [of p "CHR ''.''"]
  obtain ys zs where p: "p = ys @ CHR ''.'' # zs" and zs: "CHR ''.'' \<notin> set zs"
    and d: "?d = int (length ys)" by auto
  have "CHR ''/'' \<notin> set zs"
  proof (rule disjE [OF rfind_cases [of p "CHR ''/''"]])
    assume "?s = - 1 \<and> CHR ''/'' \<notin> set p"
    with p show ?thesis by auto
  next
    assume "\<exists>ys' zs'. p = ys' @ CHR ''/'' # zs' \<and> CHR ''/'' \<notin> set zs' \<and> ?s = int (length ys')"
    then obtain ys' zs' where p': "p = ys' @ CHR ''/'' # zs'" and zs': "CHR ''/'' \<notin> set zs'"
      and s: "?s = int (length ys')" by auto
    from gt d s have lt: "length ys' < length ys" by simp
    have "zs = drop (Suc (length ys)) p" using p by simp
    also have "\<dots> = drop (length ys - length ys') zs'"
      using lt by (subst p') (simp add: Suc_diff_le)
    finally have "set zs \<subseteq> set zs'" by (simp add: set_drop_subset)
    with zs' show ?thesis by auto
  qed
  with res p zs d show ?thesis by auto
qed

lemma splitext_join: "fst (splitext p) @ snd (splitext p) = p"
  using splitext_cases [of p] by auto

lemma splitext_report_docx: "splitext ''report.docx'' = (''report'', ''.docx'')"
  by (simp add: splitext_def rfind_def splitext_loop.simps)

lemma isoformat_version_of_day_5:
  "isoformat (date_created (version_of_day 5)) = ''2021-01-05T00:00:00''"
  by (simp add: version_of_day_def isoformat_def zero_pad_def str_nat.simps digit_char_def)

subsection \<open>get_filename\<close>

text \<open>
  Claim C1. When the version index equals the number of stored versions,
  \<open>get_filename\<close> returns the record's name unchanged; when it is smaller, it returns
  the stem of the name, a hyphen, the ISO-8601 creation time of the given version and
  the extension of the name, stem and extension being the two parts
  \<open>os.path.splitext\<close> splits the name into.
\<close>

theorem get_filename_latest_or_dated:
  "(version_idx = int (length (versions file_record)) \<longrightarrow>
      get_filename version_idx file_version file_record = name file_record) \<and>
   (version_idx < int (length (versions file_record)) \<longrightarrow>
      get_filename version_idx file_version file_record =
        fst (splitext (name file_record)) @ ''-'' @
        isoformat (date_created file_version) @ snd (splitext (name file_record)))"
  by (simp add: get_filename_def split: prod.splits)

text \<open>
  The spec's example: \<open>report.docx\<close> with three versions, the second created on
  2021-01-05 at midnight.
\<close>

theorem get_filename_latest_or_dated_witness:
  "(3 = int (length (versions report_docx)) \<and>
      get_filename 3 (version_of_day 6) report_docx = ''report.docx'') \<and>
   (2 < int (length (versions report_docx)) \<and>
      get_filename 2 (version_of_day 5) report_docx = ''report-2021-01-05T00:00:00.docx'')"
proof -
  have three: "int (length (versions report_docx)) = 3"
    by (simp add: report_docx_def)
  have nm: "name report_docx = ''report.docx''"
    by (simp add: report_docx_def)
  from get_filename_latest_or_dated [of 3 report_docx "version_of_day 6"] three nm
  have latest: "get_filename 3 (version_of_day 6) report_docx = ''report.docx''"
    by simp
  from get_filename_latest_or_dated [of 2 report_docx "version_of_day 5"] three
  have "get_filename 2 (version_of_day 5) report_docx =
        fst (splitext (name report_docx)) @ ''-'' @
        isoformat (date_created (version_of_day 5)) @ snd (splitext (name report_docx))"
    by simp
  then have older:
    "get_filename 2 (version_of_day 5) report_docx = ''report-2021-01-05T00:00:00.docx''"
    by (simp add: nm splitext_report_docx isoformat_version_of_day_5)
  from three latest older show ?thesis by simp
qed

text \<open>
  Claim C9. An index beyond the number of stored versions does not fail and does not
  give the plain name: the result is the dated file name, which differs from the name,
  because only an index equal to the number of versions takes the first branch.
\<close>

theorem get_filename_beyond_latest:
  assumes "int (length (versions file_record)) < version_idx"
  shows "get_filename version_idx file_version file_record =
           fst (splitext (name file_record)) @ ''-'' @
           isoformat (date_created file_version) @ snd (splitext (name file_record)) \<and>
         get_filename version_idx file_version file_record \<noteq> name file_record"
proof -
  from assms have dated: "get_filename version_idx file_version file_record =
           fst (splitext (name file_record)) @ ''-'' @
           isoformat (date_created file_version) @ snd (splitext (name file_record))"
    by (simp add: get_filename_def split: prod.splits)
  have "length (get_filename version_idx file_version file_record) =
        length (fst (splitext (name file_record)) @ snd (splitext (name file_record))) + 1 +
        length (isoformat (date_created file_version))"
    by (simp add: dated)
  then have "length (get_filename version_idx file_version file_record) > length (name file_record)"
    by (simp add: splitext_join)
  then have "get_filename version_idx file_version file_record \<noteq> name file_record"
    by auto
  with dated show ?thesis by simp
qed

theorem get_filename_beyond_latest_witness:
  "int (length (versions report_docx)) < 4 \<and>
   get_filename 4 (version_of_day 5) report_docx = ''report-2021-01-05T00:00:00.docx'' \<and>
   get_filename 4 (version_of_day 5) report_docx \<noteq> name report_docx"
proof -
  have beyond: "int (length (versions report_docx)) < 4"
    by (simp add: report_docx_def)
  have nm: "name report_docx = ''report.docx''"
    by (simp add: report_docx_def)
  from get_filename_beyond_latest [OF beyond, of "version_of_day 5"] beyond
  show ?thesis
    by (simp add: nm splitext_report_docx isoformat_version_of_day_5)
qed

subsection \<open>get_permissions\<close>

text \<open>A permission check that raises ends the call with its error.\<close>

lemma get_permissions_propagates:
  "can_edit node auth = Inl e \<Longrightarrow> get_permissions auth node = Inl e"
  "can_edit node auth = Inr edit \<Longrightarrow> can_view node auth = Inl e \<Longrightarrow> get_permissions auth node = Inl e"
  by (simp_all add: get_permissions_def)

text \<open>
  Claim C8. When the node's two permission checks return, \<open>get_permissions\<close> returns a
  mapping with the keys \<open>edit\<close> and \<open>view\<close>: \<open>edit\<close> is true exactly when the node
  grants edit permission to the auth context and the node is not a registration, and
  \<open>view\<close> is the result of the node's view-permission check.
\<close>

theorem get_permissions_edit_view:
  assumes "can_edit node auth = Inr edit" and "can_view node auth = Inr view"
  shows "\<exists>perms. get_permissions auth node = Inr perms \<and>
           dom perms = {''edit'', ''view''} \<and>
           perms ''edit'' = Some (edit \<and> \<not> is_registration node) \<and>
           perms ''view'' = Some view"
  using assms by (auto simp: get_permissions_def)

theorem get_permissions_edit_view_witness:
  "can_edit example_node \<lparr>auth_user = Some alice\<rparr> = Inr True \<and>
   can_view example_node \<lparr>auth_user = Some alice\<rparr> = Inr True \<and>
   (\<exists>perms. get_permissions \<lparr>auth_user = Some alice\<rparr> example_node = Inr perms \<and>
      dom perms = {''edit'', ''view''} \<and> perms ''edit'' = Some True \<and> perms ''view'' = Some True)"
proof -
  have e: "can_edit example_node \<lparr>auth_user = Some alice\<rparr> = Inr True"
    and v: "can_view example_node \<lparr>auth_user = Some alice\<rparr> = Inr True"
    and r: "\<not> is_registration example_node"
    by (simp_all add: example_node_def)
  from get_permissions_edit_view [OF e v] e v r show ?thesis by simp
qed

subsection \<open>serialize_metadata_hgrid\<close>

text \<open>
  Claim C2, as amended. For a file tree the call returns a mapping whose kind field is
  the folder tag, for a file record one whose kind field is the file tag. For an object
  of any other type \<open>get_item_kind\<close> raises a type error, and the call returns no
  mapping: it raises that type error when the object has the attributes \<open>path\<close>,
  \<open>name\<close> and \<open>extension\<close>, and an attribute error otherwise, because the three
  attributes are read before the kind is computed.
\<close>

theorem serialize_metadata_hgrid_kind:
  "(\<exists>m. serialize_metadata_hgrid (OsfStorageFileTree t) node = Inr m \<and>
        m rubeus_KIND = Some (Str rubeus_FOLDER)) \<and>
   (\<exists>m. serialize_metadata_hgrid (OsfStorageFileRecord r) node = Inr m \<and>
        m rubeus_KIND = Some (Str rubeus_FILE)) \<and>
   get_item_kind (OtherObject attrs) = Inl TypeError \<and>
   serialize_metadata_hgrid (OtherObject attrs) node =
     Inl (if attrs ''path'' \<noteq> None \<and> attrs ''name'' \<noteq> None \<and> attrs ''extension'' \<noteq> None
          then TypeError else AttributeError)"
  by (auto simp: serialize_metadata_hgrid_def rubeus_KIND_def split: option.splits)

text \<open>
  Claim C2 as stated fails for an object without attributes (an integer, say): reading
  \<open>item.path\<close> raises an attribute error before \<open>get_item_kind\<close> is called.
\<close>

theorem serialize_metadata_hgrid_other_counterexample:
  "serialize_metadata_hgrid (OtherObject Map.empty) example_node = Inl AttributeError \<and>
   serialize_metadata_hgrid (OtherObject Map.empty) example_node \<noteq> Inl TypeError"
  by (simp add: serialize_metadata_hgrid_def)

subsection \<open>ensure_domain and build_callback_urls\<close>

text \<open>
  \<open>ensure_domain\<close> prints the object furl parsed from the input, with its host
  replaced.
\<close>

lemma ensure_domain_eq:
  "ensure_domain lib cfg url' = furl_url lib ((furl_furl lib url')\<lparr>host := Str (DOMAIN cfg)\<rparr>)"
  by (simp add: ensure_domain_def patch_url_def setattr_furl_def)

text \<open>
  Claim C3. For every input URL, what \<open>ensure_domain\<close> returns is the URL of a furl
  object whose host is the configured domain, whatever the host of the input was, and
  whose path, query and scheme are those of the input.
\<close>

theorem ensure_domain_host:
  "\<exists>parsed. ensure_domain lib cfg url' = furl_url lib parsed \<and>
     host parsed = Str (DOMAIN cfg) \<and>
     segments parsed = segments (furl_furl lib url') \<and>
     args parsed = args (furl_furl lib url') \<and>
     scheme parsed = scheme (furl_furl lib url')"
  by (rule exI [of _ "(furl_furl lib url')\<lparr>host := Str (DOMAIN cfg)\<rparr>"])
     (simp add: ensure_domain_eq)

text \<open>
  Claim C10. \<open>ensure_domain\<close> replaces the host and nothing else: the object it prints
  is the parsed input with the host updated, so the port of the input, a non-standard
  one included, and every other component are those of the input.
\<close>

theorem ensure_domain_only_host:
  "\<exists>parsed. ensure_domain lib cfg url' = furl_url lib parsed \<and>
     parsed = (furl_furl lib url')\<lparr>host := Str (DOMAIN cfg)\<rparr> \<and>
     port parsed = port (furl_furl lib url') \<and>
     scheme parsed = scheme (furl_furl lib url') \<and>
     furl_username parsed = furl_username (furl_furl lib url') \<and>
     furl_password parsed = furl_password (furl_furl lib url') \<and>
     segments parsed = segments (furl_furl lib url') \<and>
     args parsed = args (furl_furl lib url') \<and>
     fragment parsed = fragment (furl_furl lib url')"
  by (simp add: ensure_domain_eq)

text \<open>
  Claim C6, as amended. \<open>build_callback_urls\<close> returns a mapping with exactly the keys
  \<open>startUrl\<close>, \<open>finishUrl\<close>, \<open>cachedUrl\<close>, \<open>pingUrl\<close> and \<open>archiveUrl\<close>. Each
  value is the URL the node resolves for one of five distinct API routes with the given
  path, printed with its host replaced by the configured domain and nothing else
  changed: its scheme is the scheme of the route's URL, so the value has a scheme
  exactly when the route's URL has one.
\<close>

theorem build_callback_urls_five:
  "dom (build_callback_urls lib cfg node path') =
     {''startUrl'', ''finishUrl'', ''cachedUrl'', ''pingUrl'', ''archiveUrl''} \<and>
   (\<exists>start finish cached ping archive.
      build_callback_urls lib cfg node path' ''startUrl'' = Some (furl_url lib start) \<and>
      build_callback_urls lib cfg node path' ''finishUrl'' = Some (furl_url lib finish) \<and>
      build_callback_urls lib cfg node path' ''cachedUrl'' = Some (furl_url lib cached) \<and>
      build_callback_urls lib cfg node path' ''pingUrl'' = Some (furl_url lib ping) \<and>
      build_callback_urls lib cfg node path' ''archiveUrl'' = Some (furl_url lib archive) \<and>
      start = (furl_furl lib (api_url_for node ''osf_storage_upload_start_hook'' path'))
                \<lparr>host := Str (DOMAIN cfg)\<rparr> \<and>
      finish = (furl_furl lib (api_url_for node ''osf_storage_upload_finish_hook'' path'))
                 \<lparr>host := Str (DOMAIN cfg)\<rparr> \<and>
      cached = (furl_furl lib (api_url_for node ''osf_storage_upload_cached_hook'' path'))
                 \<lparr>host := Str (DOMAIN cfg)\<rparr> \<and>
      ping = (furl_furl lib (api_url_for node ''osf_storage_upload_ping_hook'' path'))
               \<lparr>host := Str (DOMAIN cfg)\<rparr> \<and>
      archive = (furl_furl lib (api_url_for node ''osf_storage_upload_archived_hook'' path'))
                  \<lparr>host := Str (DOMAIN cfg)\<rparr> \<and>
      host start = Str (DOMAIN cfg) \<and> host finish = Str (DOMAIN cfg) \<and>
      host cached = Str (DOMAIN cfg) \<and> host ping = Str (DOMAIN cfg) \<and>
      host archive = Str (DOMAIN cfg) \<and>
      scheme start = scheme (furl_furl lib (api_url_for node ''osf_storage_upload_start_hook'' path')) \<and>
      scheme finish = scheme (furl_furl lib (api_url_for node ''osf_storage_upload_finish_hook'' path')) \<and>
      scheme cached = scheme (furl_furl lib (api_url_for node ''osf_storage_upload_cached_hook'' path')) \<and>
      scheme ping = scheme (furl_furl lib (api_url_for node ''osf_storage_upload_ping_hook'' path')) \<and>
      scheme archive =
        scheme (furl_furl lib (api_url_for node ''osf_storage_upload_archived_hook'' path'))) \<and>
   distinct [''osf_storage_upload_start_hook'', ''osf_storage_upload_finish_hook'',
             ''osf_storage_upload_cached_hook'', ''osf_storage_upload_ping_hook'',
             ''osf_storage_upload_archived_hook'']"
  by (auto simp: build_callback_urls_def ensure_domain_eq)

text \<open>
  Claim C6 as first stated asks for absolute URLs. The example node resolves its routes
  to URLs that are a path only; the value under \<open>startUrl\<close> then has the configured
  host and no scheme, so it is not an absolute URL.
\<close>

theorem build_callback_urls_relative_counterexample:
  "api_url_for example_node ''osf_storage_upload_start_hook'' ''docs'' =
     ''/api/v1/project/abc12/osfstorage/osf_storage_upload_start_hook/docs'' \<and>
   scheme (furl_furl path_library
             ''/api/v1/project/abc12/osfstorage/osf_storage_upload_start_hook/docs'') = None \<and>
   build_callback_urls path_library example_config example_node ''docs'' ''startUrl'' =
     Some ''//osf.io/api/v1/project/abc12/osfstorage/osf_storage_upload_start_hook/docs'' \<and>
   scheme ((furl_furl path_library
              ''/api/v1/project/abc12/osfstorage/osf_storage_upload_start_hook/docs'')
             \<lparr>host := Str (DOMAIN example_config)\<rparr>) = None"
  by (simp add: build_callback_urls_def ensure_domain_eq path_library_def example_library_def
      example_config_def example_node_def)

subsection \<open>get_cookie_for_user\<close>

text \<open>A signature without a dot (base64 text has none) is verified by \<open>unsign\<close>.\<close>

lemma Signer_unsign_sign:
  assumes "CHR ''.'' \<notin> set (get_signature lib secret_key value)"
  shows "Signer_unsign lib secret_key (Signer_sign lib secret_key value) = Inr value"
proof -
  let ?sig = "get_signature lib secret_key value"
  have "rfind (value @ CHR ''.'' # ?sig) CHR ''.'' = int (length value)"
    using assms by (rule rfind_last_occurrence)
  then show ?thesis
    by (simp add: Signer_unsign_def Signer_sign_def)
qed

text \<open>The query finds the user's sessions, the most recently modified first.\<close>

lemma set_Session_find:
  "set (Session_find st uid) = {s \<in> set (sessions st). data s ''auth_user_id'' = Some uid}"
  by (auto simp: Session_find_def)

lemma Session_find_latest_first:
  assumes "Session_find st uid = s # rest" and "s' \<in> set (Session_find st uid)"
  shows "date_modified s' \<le> date_modified s"
proof -
  have "sorted (map (\<lambda>s. - date_modified s) (Session_find st uid))"
    by (simp add: Session_find_def)
  with assms show ?thesis by auto
qed

lemma Session_find_saved:
  assumes "Session_find st uid = []" and "data' ''auth_user_id'' = Some uid"
  shows "Session_find (snd (Session_save lib st data')) uid = [fst (Session_save lib st data')]"
proof -
  from assms(1) have "set (filter (\<lambda>s. data s ''auth_user_id'' = Some uid) (sessions st)) = {}"
    unfolding Session_find_def by (metis set_sort list.set(1))
  then have "filter (\<lambda>s. data s ''auth_user_id'' = Some uid) (sessions st) = []"
    by simp
  with assms(2) show ?thesis
    by (simp add: Session_find_def Session_save_def Let_def)
qed

text \<open>
  With a session of the user in the store, the call signs the id of the first one found
  and leaves the store as it is; after any call the store holds a session of the user,
  and the cookie signs the id of the first one found.
\<close>

lemma get_cookie_for_user_existing:
  assumes "Session_find st (user_id user) = s # rest"
  shows "get_cookie_for_user lib cfg st user = (Signer_sign lib (SECRET_KEY cfg) (session_id s), st)"
  using assms by (simp add: get_cookie_for_user_def)

lemma get_cookie_for_user_after:
  assumes "get_cookie_for_user lib cfg st user = (cookie, st')"
  shows "\<exists>s rest. Session_find st' (user_id user) = s # rest \<and>
           cookie = Signer_sign lib (SECRET_KEY cfg) (session_id s)"
proof (cases "Session_find st (user_id user)")
  case (Cons s rest)
  with assms show ?thesis by (auto simp: get_cookie_for_user_def)
next
  case Nil
  let ?d = "[''auth_user_id'' \<mapsto> user_id user, ''auth_user_username'' \<mapsto> username user,
             ''auth_user_fullname'' \<mapsto> fullname user]"
  have "Session_find (snd (Session_save lib st ?d)) (user_id user) = [fst (Session_save lib st ?d)]"
    using Nil by (rule Session_find_saved) simp
  with assms Nil show ?thesis
    by (auto simp: get_cookie_for_user_def split: prod.splits)
qed

text \<open>
  Claim C4, as amended. Take two successive calls for the same user, the second on a
  store in which the sessions found for that user are those the first call left (no
  session of the user was created, saved again or otherwise changed in between; the
  sessions of other users and the clock may have changed). Both calls return the signature of the id of one and the same session,
  the most recently modified session of the user; the second call creates none. Each
  returned value is verified by \<open>unsign\<close> with the secret key, which gives back the
  session id.
\<close>

theorem get_cookie_for_user_reuses_session:
  assumes dots: "\<forall>value. CHR ''.'' \<notin> set (get_signature lib (SECRET_KEY cfg) value)"
    and first: "get_cookie_for_user lib cfg st user = (cookie1, st1)"
    and between: "Session_find st1' (user_id user) = Session_find st1 (user_id user)"
    and second: "get_cookie_for_user lib cfg st1' user = (cookie2, st2)"
  shows "\<exists>session.
           session \<in> set (sessions st1) \<and>
           data session ''auth_user_id'' = Some (user_id user) \<and>
           (\<forall>s \<in> set (sessions st1). data s ''auth_user_id'' = Some (user_id user) \<longrightarrow>
              date_modified s \<le> date_modified session) \<and>
           cookie1 = Signer_sign lib (SECRET_KEY cfg) (session_id session) \<and>
           cookie2 = Signer_sign lib (SECRET_KEY cfg) (session_id session) \<and>
           Signer_unsign lib (SECRET_KEY cfg) cookie1 = Inr (session_id session) \<and>
           Signer_unsign lib (SECRET_KEY cfg) cookie2 = Inr (session_id session) \<and>
           st2 = st1'"
proof -
  from get_cookie_for_user_after [OF first] obtain s rest
    where found: "Session_find st1 (user_id user) = s # rest"
      and c1: "cookie1 = Signer_sign lib (SECRET_KEY cfg) (session_id s)"
    by blast
  from found between have "Session_find st1' (user_id user) = s # rest" by simp
  from get_cookie_for_user_existing [OF this, of lib cfg] second
  have c2: "cookie2 = Signer_sign lib (SECRET_KEY cfg) (session_id s)" and st: "st2 = st1'"
    by simp_all
  have "s \<in> set (Session_find st1 (user_id user))" using found by simp
  then have mem: "s \<in> set (sessions st1)" and uid: "data s ''auth_user_id'' = Some (user_id user)"
    by (simp_all add: set_Session_find)
  have latest: "\<forall>s' \<in> set (sessions st1). data s' ''auth_user_id'' = Some (user_id user) \<longrightarrow>
                  date_modified s' \<le> date_modified s"
    using Session_find_latest_first [OF found] by (simp add: set_Session_find)
  from dots have "Signer_unsign lib (SECRET_KEY cfg) (Signer_sign lib (SECRET_KEY cfg) (session_id s))
        = Inr (session_id s)"
    by (simp add: Signer_unsign_sign)
  with mem uid latest c1 c2 st show ?thesis by blast
qed

text \<open>
  The example: the first call on an empty store creates the session \<open>oid0\<close>; another
  user's session is saved; the second call signs \<open>oid0\<close> again.
\<close>

lemma example_signature_no_dot:
  "\<forall>value. CHR ''.'' \<notin> set (get_signature example_library (SECRET_KEY example_config) value)"
  by (simp add: example_library_def)

lemma get_cookie_for_user_empty_store:
  "get_cookie_for_user example_library example_config empty_store alice =
     (''oid0.secretoid0'', store_after_alice)"
  by (simp add: get_cookie_for_user_def Session_find_def Session_save_def Let_def empty_store_def
      alice_def example_library_def example_config_def store_after_alice_def Signer_sign_def
      str_nat.simps digit_char_def)

lemma get_cookie_for_user_busy_store:
  "get_cookie_for_user example_library example_config busy_store alice =
     (''oid0.secretoid0'', busy_store)"
  by (simp add: get_cookie_for_user_def Session_find_def busy_store_def
      alice_def example_library_def example_config_def Signer_sign_def)

lemma Session_find_busy_store:
  "Session_find busy_store (user_id alice) = Session_find store_after_alice (user_id alice)"
  by (simp add: Session_find_def busy_store_def store_after_alice_def alice_def)

theorem get_cookie_for_user_reuses_session_witness:
  "(\<forall>value. CHR ''.'' \<notin> set (get_signature example_library (SECRET_KEY example_config) value)) \<and>
   get_cookie_for_user example_library example_config empty_store alice =
     (''oid0.secretoid0'', store_after_alice) \<and>
   Session_find busy_store (user_id alice) = Session_find store_after_alice (user_id alice) \<and>
   get_cookie_for_user example_library example_config busy_store alice =
     (''oid0.secretoid0'', busy_store) \<and>
   (\<exists>session. session \<in> set (sessions store_after_alice) \<and>
      Signer_unsign example_library (SECRET_KEY example_config) ''oid0.secretoid0'' =
        Inr (session_id session))"
proof -
  from get_cookie_for_user_reuses_session
    [OF example_signature_no_dot get_cookie_for_user_empty_store Session_find_busy_store
        get_cookie_for_user_busy_store]
  have "\<exists>session. session \<in> set (sessions store_after_alice) \<and>
      Signer_unsign example_library (SECRET_KEY example_config) ''oid0.secretoid0'' =
        Inr (session_id session)"
    by blast
  with example_signature_no_dot get_cookie_for_user_empty_store Session_find_busy_store
    get_cookie_for_user_busy_store
  show ?thesis by blast
qed

text \<open>
  Claim C4 as first stated excludes only the creation of a session between the calls.
  With two sessions of the user in the store, the first call signs \<open>oid1\<close>, the more
  recently modified; the older session \<open>oid0\<close> is then saved again and none is created;
  the second call signs \<open>oid0\<close>, another session id.
\<close>

theorem get_cookie_for_user_resaved_counterexample:
  "get_cookie_for_user example_library example_config two_session_store alice =
     (''oid1.secretoid1'', two_session_store) \<and>
   map session_id (sessions resaved_store) = map session_id (sessions two_session_store) \<and>
   map data (sessions resaved_store) = map data (sessions two_session_store) \<and>
   n_created resaved_store = n_created two_session_store \<and>
   get_cookie_for_user example_library example_config resaved_store alice =
     (''oid0.secretoid0'', resaved_store) \<and>
   Signer_unsign example_library (SECRET_KEY example_config) ''oid1.secretoid1'' = Inr ''oid1'' \<and>
   Signer_unsign example_library (SECRET_KEY example_config) ''oid0.secretoid0'' = Inr ''oid0'' \<and>
   fst (get_cookie_for_user example_library example_config two_session_store alice) \<noteq>
     fst (get_cookie_for_user example_library example_config resaved_store alice)"
proof -
  have c1: "get_cookie_for_user example_library example_config two_session_store alice =
     (''oid1.secretoid1'', two_session_store)"
    by (simp add: get_cookie_for_user_def Session_find_def two_session_store_def
        alice_def example_library_def example_config_def Signer_sign_def)
  have c2: "get_cookie_for_user example_library example_config resaved_store alice =
     (''oid0.secretoid0'', resaved_store)"
    by (simp add: get_cookie_for_user_def Session_find_def resaved_store_def
        alice_def example_library_def example_config_def Signer_sign_def)
  have u1: "Signer_unsign example_library (SECRET_KEY example_config) ''oid1.secretoid1'' = Inr ''oid1''"
    using Signer_unsign_sign [of example_library "SECRET_KEY example_config" "''oid1''"]
    by (simp add: Signer_sign_def example_library_def example_config_def)
  have u0: "Signer_unsign example_library (SECRET_KEY example_config) ''oid0.secretoid0'' = Inr ''oid0''"
    using Signer_unsign_sign [of example_library "SECRET_KEY example_config" "''oid0''"]
    by (simp add: Signer_sign_def example_library_def example_config_def)
  show ?thesis
    using c1 c2 u1 u0 by (simp add: resaved_store_def two_session_store_def)
qed

subsection \<open>get_waterbutler_url\<close>

text \<open>
  Claim C5. The URL returned is that of the furl object of the configured base URL with
  the path segments appended, whose query holds \<open>token\<close> as the empty string,
  \<open>provider\<close> as \<open>osfstorage\<close> and \<open>cookie\<close> as the signed session cookie of the user
  when one is given and the inbound request's cookie otherwise, except that every
  query parameter of the caller is in the query with the caller's value, also under
  one of these three keys.
\<close>

theorem get_waterbutler_url_args:
  assumes "query ''user'' = None"
  shows "\<exists>parsed st'.
           get_waterbutler_url lib cfg req st user path' query = Inr (furl_url lib parsed, st') \<and>
           st' = (case user of Some u \<Rightarrow> snd (get_cookie_for_user lib cfg st u) | None \<Rightarrow> st) \<and>
           segments parsed = segments (furl_furl lib (WATERBUTLER_URL cfg)) @ path' \<and>
           args parsed ''token'' = Some (case query ''token'' of Some v \<Rightarrow> v | None \<Rightarrow> Str []) \<and>
           args parsed ''provider'' =
             Some (case query ''provider'' of Some v \<Rightarrow> v | None \<Rightarrow> Str ''osfstorage'') \<and>
           args parsed ''cookie'' =
             Some (case query ''cookie'' of
                     Some v \<Rightarrow> v
                   | None \<Rightarrow>
                       (case user of
                          Some u \<Rightarrow> Str (fst (get_cookie_for_user lib cfg st u))
                        | None \<Rightarrow>
                            (case cookies req (COOKIE_NAME cfg) of
                               Some c \<Rightarrow> Str c
                             | None \<Rightarrow> NoneV))) \<and>
           (\<forall>k v. query k = Some v \<longrightarrow> args parsed k = Some v)"
  using assms
  by (cases user)
     (auto simp: get_waterbutler_url_def Let_def map_add_def split: option.splits prod.splits)

theorem get_waterbutler_url_args_witness:
  "[''token'' \<mapsto> Str ''t0''] ''user'' = None \<and>
   (\<exists>parsed st'.
      get_waterbutler_url example_library example_config example_request empty_store
        (Some alice) [''file''] [''token'' \<mapsto> Str ''t0''] = Inr (furl_url example_library parsed, st') \<and>
      st' = store_after_alice \<and>
      segments parsed = [''file''] \<and>
      args parsed ''token'' = Some (Str ''t0'') \<and>
      args parsed ''provider'' = Some (Str ''osfstorage'') \<and>
      args parsed ''cookie'' = Some (Str ''oid0.secretoid0''))"
proof -
  have q: "[''token'' \<mapsto> Str ''t0''] ''user'' = None" by simp
  have base: "segments (furl_furl example_library (WATERBUTLER_URL example_config)) = []"
    by (simp add: example_library_def)
  from get_waterbutler_url_args [where query = "[''token'' \<mapsto> Str ''t0'']"
      and lib = example_library and cfg = example_config and req = example_request
      and st = empty_store and user = "Some alice" and path' = "[''file'']", OF q]
  obtain parsed st' where
    "get_waterbutler_url example_library example_config example_request empty_store
        (Some alice) [''file''] [''token'' \<mapsto> Str ''t0''] = Inr (furl_url example_library parsed, st')"
    "st' = snd (get_cookie_for_user example_library example_config empty_store alice)"
    "segments parsed = segments (furl_furl example_library (WATERBUTLER_URL example_config)) @ [''file'']"
    "args parsed ''token'' = Some (Str ''t0'')"
    "args parsed ''provider'' = Some (Str ''osfstorage'')"
    "args parsed ''cookie'' =
       Some (Str (fst (get_cookie_for_user example_library example_config empty_store alice)))"
    by auto
  then show ?thesis
    by (simp add: get_cookie_for_user_empty_store base) blast
qed

subsection \<open>get_waterbutler_download_url and get_waterbutler_upload_url\<close>

text \<open>What \<open>get_waterbutler_url\<close> returns when no keyword repeats the parameter \<open>user\<close>.\<close>

lemma get_waterbutler_url_Inr:
  assumes "query ''user'' = None"
  shows "get_waterbutler_url lib cfg req st user path' query =
           Inr (furl_url lib
                  ((furl_furl lib (WATERBUTLER_URL cfg))
                     \<lparr>segments := segments (furl_furl lib (WATERBUTLER_URL cfg)) @ path',
                      args := args (furl_furl lib (WATERBUTLER_URL cfg)) ++
                                [''token'' \<mapsto> Str [], ''provider'' \<mapsto> Str ''osfstorage'',
                                 ''cookie'' \<mapsto>
                                   (case user of
                                      Some u \<Rightarrow> Str (fst (get_cookie_for_user lib cfg st u))
                                    | None \<Rightarrow>
                                        (case cookies req (COOKIE_NAME cfg) of
                                           Some c \<Rightarrow> Str c
                                         | None \<Rightarrow> NoneV))] ++
                                query\<rparr>),
                (case user of Some u \<Rightarrow> snd (get_cookie_for_user lib cfg st u) | None \<Rightarrow> st))"
  using assms
  by (cases user) (simp_all add: get_waterbutler_url_def Let_def split: prod.splits)

text \<open>
  Claim C7. \<open>get_waterbutler_download_url\<close> appends the one path segment \<open>file\<close> to
  the base URL and supplies the query parameters \<open>nid\<close> (the id of the node that owns
  the file), \<open>path\<close> (a slash and the file's name), \<open>displayName\<close> (what
  \<open>get_filename\<close> computes) and \<open>version\<close> (the version index);
  \<open>get_waterbutler_upload_url\<close> appends the same segment and supplies \<open>nid\<close> and
  \<open>path\<close>. Each holds for the calls that give none of these keywords a second time.
\<close>

theorem get_waterbutler_download_upload_url:
  "(query ''user'' = None \<and> query ''nid'' = None \<and> query ''path'' = None \<and>
    query ''displayName'' = None \<and> query ''version'' = None \<longrightarrow>
      (\<exists>parsed st'.
         get_waterbutler_download_url lib cfg req st version_idx file_version file_record user query =
           Inr (furl_url lib parsed, st') \<and>
         segments parsed = segments (furl_furl lib (WATERBUTLER_URL cfg)) @ [''file''] \<and>
         args parsed ''nid'' = Some (Str (node_id (file_node file_record))) \<and>
         args parsed ''path'' = Some (Str (''/'' @ name file_record)) \<and>
         args parsed ''displayName'' =
           Some (Str (get_filename version_idx file_version file_record)) \<and>
         args parsed ''version'' = Some (IntV version_idx))) \<and>
   (query ''user'' = None \<and> query ''nid'' = None \<and> query ''path'' = None \<longrightarrow>
      (\<exists>parsed st'.
         get_waterbutler_upload_url lib cfg req st user node path' query =
           Inr (furl_url lib parsed, st') \<and>
         segments parsed = segments (furl_furl lib (WATERBUTLER_URL cfg)) @ [''file''] \<and>
         args parsed ''nid'' = Some (Str (node_id node)) \<and>
         args parsed ''path'' = Some (Str path')))"
proof (intro conjI impI)
  assume q: "query ''user'' = None \<and> query ''nid'' = None \<and> query ''path'' = None \<and>
    query ''displayName'' = None \<and> query ''version'' = None"
  let ?kw = "query ++ [''nid'' \<mapsto> Str (node_id (file_node file_record)),
                       ''path'' \<mapsto> Str (''/'' @ name file_record),
                       ''displayName'' \<mapsto> Str (get_filename version_idx file_version file_record),
                       ''version'' \<mapsto> IntV version_idx]"
  from q have u: "?kw ''user'' = None" by (simp add: map_add_def)
  from q have "get_waterbutler_download_url lib cfg req st version_idx file_version file_record
      user query = get_waterbutler_url lib cfg req st user [''file''] ?kw"
    by (simp add: get_waterbutler_download_url_def Let_def)
  also note get_waterbutler_url_Inr [where query = ?kw, OF u]
  finally obtain parsed st' where
    res: "get_waterbutler_download_url lib cfg req st version_idx file_version file_record
            user query = Inr (furl_url lib parsed, st')"
    and seg: "segments parsed = segments (furl_furl lib (WATERBUTLER_URL cfg)) @ [''file'']"
    and ar: "args parsed = args (furl_furl lib (WATERBUTLER_URL cfg)) ++
               [''token'' \<mapsto> Str [], ''provider'' \<mapsto> Str ''osfstorage'',
                ''cookie'' \<mapsto>
                  (case user of
                     Some u \<Rightarrow> Str (fst (get_cookie_for_user lib cfg st u))
                   | None \<Rightarrow>
                       (case cookies req (COOKIE_NAME cfg) of
                          Some c \<Rightarrow> Str c
                        | None \<Rightarrow> NoneV))] ++ ?kw"
    by simp
  show "\<exists>parsed st'.
         get_waterbutler_download_url lib cfg req st version_idx file_version file_record user query =
           Inr (furl_url lib parsed, st') \<and>
         segments parsed = segments (furl_furl lib (WATERBUTLER_URL cfg)) @ [''file''] \<and>
         args parsed ''nid'' = Some (Str (node_id (file_node file_record))) \<and>
         args parsed ''path'' = Some (Str (''/'' @ name file_record)) \<and>
         args parsed ''displayName'' =
           Some (Str (get_filename version_idx file_version file_record)) \<and>
         args parsed ''version'' = Some (IntV version_idx)"
    by (rule exI [of _ parsed], rule exI [of _ st']) (simp add: res seg ar map_add_def)
next
  assume q: "query ''user'' = None \<and> query ''nid'' = None \<and> query ''path'' = None"
  let ?kw = "query ++ [''nid'' \<mapsto> Str (node_id node), ''path'' \<mapsto> Str path']"
  from q have u: "?kw ''user'' = None" by (simp add: map_add_def)
  from q have "get_waterbutler_upload_url lib cfg req st user node path' query =
      get_waterbutler_url lib cfg req st user [''file''] ?kw"
    by (simp add: get_waterbutler_upload_url_def)
  also note get_waterbutler_url_Inr [where query = ?kw, OF u]
  finally obtain parsed st' where
    res: "get_waterbutler_upload_url lib cfg req st user node path' query =
            Inr (furl_url lib parsed, st')"
    and seg: "segments parsed = segments (furl_furl lib (WATERBUTLER_URL cfg)) @ [''file'']"
    and ar: "args parsed = args (furl_furl lib (WATERBUTLER_URL cfg)) ++
               [''token'' \<mapsto> Str [], ''provider'' \<mapsto> Str ''osfstorage'',
                ''cookie'' \<mapsto>
                  (case user of
                     Some u \<Rightarrow> Str (fst (get_cookie_for_user lib cfg st u))
                   | None \<Rightarrow>
                       (case cookies req (COOKIE_NAME cfg) of
                          Some c \<Rightarrow> Str c
                        | None \<Rightarrow> NoneV))] ++ ?kw"
    by simp
  show "\<exists>parsed st'.
         get_waterbutler_upload_url lib cfg req st user node path' query =
           Inr (furl_url lib parsed, st') \<and>
         segments parsed = segments (furl_furl lib (WATERBUTLER_URL cfg)) @ [''file''] \<and>
         args parsed ''nid'' = Some (Str (node_id node)) \<and>
         args parsed ''path'' = Some (Str path')"
    by (rule exI [of _ parsed], rule exI [of _ st']) (simp add: res seg ar map_add_def)
qed

text \<open>A call that gives one of the fixed keywords again raises, as Python's call does.\<close>

lemma keyword_given_twice:
  "query ''nid'' \<noteq> None \<Longrightarrow>
     get_waterbutler_download_url lib cfg req st version_idx file_version file_record user query =
       Inl TypeError"
  "query ''nid'' \<noteq> None \<Longrightarrow>
     get_waterbutler_upload_url lib cfg req st user node path' query = Inl TypeError"
  by (simp_all add: get_waterbutler_download_url_def get_waterbutler_upload_url_def Let_def)

theorem get_waterbutler_download_upload_url_witness:
  "([''mode'' \<mapsto> Str ''render''] ''user'' = None \<and> [''mode'' \<mapsto> Str ''render''] ''nid'' = None \<and>
    [''mode'' \<mapsto> Str ''render''] ''path'' = None \<and>
    [''mode'' \<mapsto> Str ''render''] ''displayName'' = None \<and>
    [''mode'' \<mapsto> Str ''render''] ''version'' = None) \<and>
   (\<exists>parsed st'.
      get_waterbutler_download_url example_library example_config example_request empty_store 2
        (version_of_day 5) report_docx None [''mode'' \<mapsto> Str ''render''] =
        Inr (furl_url example_library parsed, st') \<and>
      segments parsed = [''file''] \<and>
      args parsed ''nid'' = Some (Str ''abc12'') \<and>
      args parsed ''path'' = Some (Str ''/report.docx'') \<and>
      args parsed ''displayName'' = Some (Str ''report-2021-01-05T00:00:00.docx'') \<and>
      args parsed ''version'' = Some (IntV 2)) \<and>
   (\<exists>parsed st'.
      get_waterbutler_upload_url example_library example_config example_request empty_store None
        example_node ''/notes.txt'' [''mode'' \<mapsto> Str ''render''] =
        Inr (furl_url example_library parsed, st') \<and>
      segments parsed = [''file''] \<and>
      args parsed ''nid'' = Some (Str ''abc12'') \<and>
      args parsed ''path'' = Some (Str ''/notes.txt''))"
proof -
  let ?q = "[''mode'' \<mapsto> Str ''render'']"
  have q: "?q ''user'' = None \<and> ?q ''nid'' = None \<and> ?q ''path'' = None \<and>
    ?q ''displayName'' = None \<and> ?q ''version'' = None" by simp
  have base: "segments (furl_furl example_library (WATERBUTLER_URL example_config)) = []"
    by (simp add: example_library_def)
  have nid: "node_id (file_node report_docx) = ''abc12''" "node_id example_node = ''abc12''"
    by (simp_all add: report_docx_def example_node_def)
  have nm: "name report_docx = ''report.docx''" by (simp add: report_docx_def)
  have dn: "get_filename 2 (version_of_day 5) report_docx = ''report-2021-01-05T00:00:00.docx''"
    by (simp add: get_filename_def report_docx_def splitext_report_docx
        isoformat_version_of_day_5)
  note inst = get_waterbutler_download_upload_url [where query = ?q and lib = example_library
      and cfg = example_config and req = example_request and st = empty_store
      and version_idx = 2 and file_version = "version_of_day 5" and file_record = report_docx
      and user = None and node = example_node and path' = "''/notes.txt''"]
  from inst q show ?thesis
    by (simp add: base nid nm dn)
qed

end
